theory Spec2Isabelle
  imports Main "HOL-Library.AList"
begin

section \<open>The board state coordinator of react-chessboard\<close>

text \<open>
  The development embeds \<^verbatim>\<open>src/context/chessboard-context.js\<close>: the React state of
  \<^verbatim>\<open>ChessboardProvider\<close>, the effect that reconciles an external position change, the
  drop handler \<^verbatim>\<open>handleSetPosition\<close>, \<^verbatim>\<open>attemptPremove\<close> and \<^verbatim>\<open>clearPremoves\<close>.

  Conventions of the embedding.
  \<^item> A JavaScript object with string keys is an association list in insertion order
    (\<^verbatim>\<open>Object.entries\<close> order, for keys that are no array indices, as squares are);
    \<^verbatim>\<open>delete o[k]\<close> is \<open>AList.delete\<close>, \<^verbatim>\<open>o[k] = v\<close> is \<open>AList.update\<close> (in place when
    the key exists, appended otherwise), the spread copy \<^verbatim>\<open>{...o}\<close> is the list itself.
  \<^item> \<^verbatim>\<open>undefined\<close> is \<open>None\<close>: a colour is a \<open>char option\<close>, an off-board target
    square is \<open>None\<close>.
  \<^item> Every handler runs to completion against the state of the latest render, so a
    handler is a function from state to state; the state setters of one handler are
    applied in program order (the last write of a field wins).
  \<^item> The browser's timers are part of the state: \<^verbatim>\<open>setTimeout\<close> adds an entry with
    a fresh positive id, \<^verbatim>\<open>clearTimeout\<close> removes it, and only a pending entry fires.
  \<^item> Calls of the user's callbacks \<^verbatim>\<open>onPieceDrop\<close> and \<^verbatim>\<open>getPositionObject\<close> are
    appended to a log; the callbacks do not re-enter the component.
\<close>

subsection \<open>Data\<close>

type_synonym position = "(string \<times> string) list"

datatype position_prop = PositionString string | PositionObject position

record differences =
  removed :: position
  added :: position

record premove =
  sourceSq :: string
  targetSq :: "string option"
  piece :: string

datatype callback_call =
    OnPieceDrop string "string option" string
  | GetPositionObject position

text \<open>A pending \<^verbatim>\<open>setTimeout\<close>: its id, its delay, and what the commit closure captured.\<close>

record timeout =
  timeoutId :: nat
  delay :: nat
  commitPosition :: position
  commitColour :: "char option"

text \<open>The props the coordinator reads. \<open>onPieceDrop_length\<close> is \<^verbatim>\<open>onPieceDrop.length\<close>.\<close>

record props =
  animationDuration :: nat
  arePremovesAllowed :: bool
  dropOffBoardAction :: string
  expectingAlternateMoves :: bool
  onPieceDrop_length :: nat
  onPieceDrop :: "string \<Rightarrow> string option \<Rightarrow> string \<Rightarrow> bool"

text \<open>
  The three functions imported from \<^verbatim>\<open>../functions\<close>, a module that is not part of the
  sources at hand: they are parameters of the coordinator.
\<close>

record functions_js =
  convertPositionToObject :: "position_prop \<Rightarrow> position"
  getPositionDifferences :: "position \<Rightarrow> position \<Rightarrow> differences"
  isDifferentFromStart :: "position \<Rightarrow> bool"

text \<open>
  The \<^verbatim>\<open>useState\<close> cells and the \<^verbatim>\<open>useRef\<close> cell of the provider, followed by the
  environment: the pending timers, the next timer id, the timeout id captured by the
  cleanup closure of the last run of the position effect, and the callback log.
\<close>

record state =
  currentPosition :: position
  positionDifferences :: differences
  lastPieceColour :: "char option"
  premoves :: "premove list"
  premovesRef :: "premove list"
  manualDrop :: bool
  previousTimeout :: "nat option"
  waitingForAnimation :: bool
  timers :: "timeout list"
  nextTimerId :: nat
  effectCleanup :: "nat option"
  calls :: "callback_call list"

subsection \<open>JavaScript primitives\<close>

text \<open>\<^verbatim>\<open>piece[0]\<close>: the first character of a string, \<^verbatim>\<open>undefined\<close> for the empty string.\<close>

definition charAt0 :: "string \<Rightarrow> char option" where
  "charAt0 str = (case str of [] \<Rightarrow> None | c # _ \<Rightarrow> Some c)"

text \<open>\<^verbatim>\<open>!targetSq\<close>: \<^verbatim>\<open>undefined\<close> and the empty string are falsy.\<close>

definition falsy :: "string option \<Rightarrow> bool" where
  "falsy v = (case v of None \<Rightarrow> True | Some str \<Rightarrow> str = [])"

text \<open>The property key \<^verbatim>\<open>o[targetSq]\<close> uses: \<^verbatim>\<open>undefined\<close> is coerced to a string.\<close>

definition propertyKey :: "string option \<Rightarrow> string" where
  "propertyKey v = (case v of None \<Rightarrow> ''undefined'' | Some str \<Rightarrow> str)"

definition setTimeout :: "position \<Rightarrow> char option \<Rightarrow> nat \<Rightarrow> state \<Rightarrow> nat \<times> state" where
  "setTimeout pos colour ms st =
     (nextTimerId st,
      st\<lparr>timers := timers st @
             [\<lparr>timeoutId = nextTimerId st, delay = ms,
               commitPosition = pos, commitColour = colour\<rparr>],
         nextTimerId := Suc (nextTimerId st)\<rparr>)"

definition clearTimeout :: "nat option \<Rightarrow> state \<Rightarrow> state" where
  "clearTimeout h st =
     (case h of
        None \<Rightarrow> st
      | Some n \<Rightarrow> st\<lparr>timers := filter (\<lambda>t. timeoutId t \<noteq> n) (timers st)\<rparr>)"

text \<open>\<^verbatim>\<open>if (previousTimeout)\<close>: \<^verbatim>\<open>undefined\<close> and \<open>0\<close> are falsy.\<close>

definition truthyTimeout :: "nat option \<Rightarrow> bool" where
  "truthyTimeout h = (case h of None \<Rightarrow> False | Some n \<Rightarrow> n \<noteq> 0)"

subsection \<open>The coordinator\<close>

definition clearPremoves :: "state \<Rightarrow> state" where
  "clearPremoves st = st\<lparr>lastPieceColour := None, premovesRef := [], premoves := []\<rparr>"

definition attemptPremove :: "props \<Rightarrow> char option \<Rightarrow> state \<Rightarrow> state" where
  "attemptPremove pr colour st =
     (case premovesRef st of
        [] \<Rightarrow> st
      | pm # _ \<Rightarrow>
          if charAt0 (piece pm) \<noteq> None \<and> charAt0 (piece pm) \<noteq> colour
             \<and> onPieceDrop_length pr \<noteq> 0
          then
            (let st1 = st\<lparr>lastPieceColour := charAt0 (piece pm), manualDrop := True,
                          calls := calls st @
                            [OnPieceDrop (sourceSq pm) (targetSq pm) (piece pm)]\<rparr>;
                 isValidMove = onPieceDrop pr (sourceSq pm) (targetSq pm) (piece pm)
             in if isValidMove
                then (let oldPremoves = tl (premovesRef st1)
                      in st1\<lparr>premovesRef := oldPremoves, premoves := oldPremoves\<rparr>)
                else clearPremoves st1)
          else st)"

text \<open>\<^verbatim>\<open>handleSetPosition(sourceSq, targetSq, piece)\<close>, the drop handler.\<close>

definition handleSetPosition ::
  "props \<Rightarrow> string \<Rightarrow> string option \<Rightarrow> string \<Rightarrow> state \<Rightarrow> state" where
  "handleSetPosition pr src tgt pc st =
     (if Some src = tgt \<or>
         (\<not> arePremovesAllowed pr \<and> expectingAlternateMoves pr
          \<and> lastPieceColour st = charAt0 pc)
      then st
      else if arePremovesAllowed pr \<and>
              (lastPieceColour st = charAt0 pc \<or> length (premovesRef st) > 0)
      then
        (let oldPremoves = premovesRef st @ [\<lparr>sourceSq = src, targetSq = tgt, piece = pc\<rparr>]
         in st\<lparr>premovesRef := oldPremoves, premoves := oldPremoves\<rparr>)
      else if waitingForAnimation st then st
      else
        (let newOnDropPosition = currentPosition st;
             st1 = st\<lparr>manualDrop := True, lastPieceColour := charAt0 pc\<rparr>
         in if onPieceDrop_length pr \<noteq> 0
            then
              (let st2 = st1\<lparr>calls := calls st1 @ [OnPieceDrop src tgt pc]\<rparr>;
                   isValidMove = onPieceDrop pr src tgt pc;
                   st3 = (if \<not> isValidMove then clearPremoves st2 else st2)
               in st3\<lparr>calls := calls st3 @ [GetPositionObject newOnDropPosition]\<rparr>)
            else
              (let pos1 = (if dropOffBoardAction pr = ''trash'' \<and> falsy tgt
                           then AList.delete src newOnDropPosition
                           else newOnDropPosition);
                   pos2 = (if src \<noteq> ''spare'' then AList.delete src pos1 else pos1);
                   pos3 = AList.update (propertyKey tgt) pc pos2;
                   st2 = st1\<lparr>currentPosition := pos3\<rparr>
               in st2\<lparr>calls := calls st2 @ [GetPositionObject pos3]\<rparr>)))"

text \<open>
  The colour the position effect infers from the differences:
  \<^verbatim>\<open>Object.keys(differences.added)?.length <= 2 ? Object.entries(differences.added)?.[0]?.[1][0] : undefined\<close>.
\<close>

definition newPieceColour :: "differences \<Rightarrow> char option" where
  "newPieceColour d =
     (if length (added d) \<le> 2
      then (case added d of [] \<Rightarrow> None | (sq, pc) # _ \<Rightarrow> charAt0 pc)
      else None)"

text \<open>The body of the effect that runs when the \<^verbatim>\<open>position\<close> prop changes.\<close>

definition positionEffect :: "functions_js \<Rightarrow> props \<Rightarrow> position_prop \<Rightarrow> state \<Rightarrow> state" where
  "positionEffect fn pr pos st =
     (let newPosition = convertPositionToObject fn pos;
          diffs = getPositionDifferences fn (currentPosition st) newPosition;
          colour = newPieceColour diffs;
          st1 =
            (if waitingForAnimation st
             then
               (let st2 = st\<lparr>currentPosition := newPosition, waitingForAnimation := False\<rparr>
                in if truthyTimeout (previousTimeout st)
                   then clearTimeout (previousTimeout st) st2 else st2)
             else if manualDrop st
             then st\<lparr>currentPosition := newPosition, waitingForAnimation := False\<rparr>
             else
               (let st2 = (if isDifferentFromStart fn newPosition \<and> lastPieceColour st \<noteq> None
                           then st\<lparr>lastPieceColour := colour\<rparr> else st);
                    st3 = st2\<lparr>positionDifferences := diffs, waitingForAnimation := True\<rparr>;
                    (newTimeout, st4) = setTimeout newPosition colour (animationDuration pr) st3
                in st4\<lparr>previousTimeout := Some newTimeout\<rparr>))
      in st1\<lparr>manualDrop := False,
             calls := calls st1 @ [GetPositionObject newPosition],
             effectCleanup := previousTimeout st\<rparr>)"

text \<open>
  A change of the \<^verbatim>\<open>position\<close> prop: React first runs the cleanup returned by the
  previous run of the effect (\<^verbatim>\<open>clearTimeout\<close> of the id that run had captured), then
  the effect.
\<close>

definition positionChange :: "functions_js \<Rightarrow> props \<Rightarrow> position_prop \<Rightarrow> state \<Rightarrow> state" where
  "positionChange fn pr pos st = positionEffect fn pr pos (clearTimeout (effectCleanup st) st)"

text \<open>
  The callback given to \<^verbatim>\<open>setTimeout\<close> fires: only a pending timer can. The closure holds
  \<^verbatim>\<open>newPosition\<close> and \<^verbatim>\<open>newPieceColour\<close> of the run of the effect that set it; the props are
  those of that render, and \<^verbatim>\<open>attemptPremove\<close> reads \<^verbatim>\<open>premovesRef.current\<close> when it runs.
\<close>

definition timeoutFires :: "props \<Rightarrow> nat \<Rightarrow> state \<Rightarrow> state" where
  "timeoutFires pr h st =
     (case find (\<lambda>t. timeoutId t = h) (timers st) of
        None \<Rightarrow> st
      | Some t \<Rightarrow>
          (let st1 = st\<lparr>timers := filter (\<lambda>t. timeoutId t \<noteq> h) (timers st)\<rparr>;
               st2 = st1\<lparr>currentPosition := commitPosition t, waitingForAnimation := False\<rparr>
           in if arePremovesAllowed pr then attemptPremove pr (commitColour t) st2 else st2))"

text \<open>The initial values of the state cells, and the first run of the effect on mount.\<close>

definition initialState :: "functions_js \<Rightarrow> position_prop \<Rightarrow> state" where
  "initialState fn pos =
     \<lparr>currentPosition = convertPositionToObject fn pos,
      positionDifferences = \<lparr>removed = [], added = []\<rparr>,
      lastPieceColour = None,
      premoves = [],
      premovesRef = [],
      manualDrop = False,
      previousTimeout = None,
      waitingForAnimation = False,
      timers = [],
      nextTimerId = 1,
      effectCleanup = None,
      calls = []\<rparr>"

definition mount :: "functions_js \<Rightarrow> props \<Rightarrow> position_prop \<Rightarrow> state" where
  "mount fn pr pos = positionEffect fn pr pos (initialState fn pos)"

text \<open>What can happen to a mounted board, and a run of such events.\<close>

datatype event =
    PositionChange position_prop
  | HandleDrop string "string option" string
  | TimeoutFires nat
  | ClearPremoves

fun step :: "functions_js \<Rightarrow> props \<Rightarrow> state \<Rightarrow> event \<Rightarrow> state" where
  "step fn pr st (PositionChange pos) = positionChange fn pr pos st"
| "step fn pr st (HandleDrop src tgt pc) = handleSetPosition pr src tgt pc st"
| "step fn pr st (TimeoutFires h) = timeoutFires pr h st"
| "step fn pr st ClearPremoves = clearPremoves st"

definition run :: "functions_js \<Rightarrow> props \<Rightarrow> state \<Rightarrow> event list \<Rightarrow> state" where
  "run fn pr st es = foldl (step fn pr) st es"

subsection \<open>The imported functions, from their specification\<close>

text \<open>
  The module \<^verbatim>\<open>../functions\<close> and the constants it uses are not among the sources. The
  theorems below hold for every \<open>functions_js\<close>; the following instance, used where
  a concrete board is evaluated, follows the specification of the position model.
\<close>

text \<open>Modelled from the spec: the piece a letter of the compact notation stands for
  (colour, then type), absent from the sources.\<close>

definition fenPiece :: "char \<Rightarrow> string option" where
  "fenPiece c = map_of
     [(CHR ''p'', ''bP''), (CHR ''n'', ''bN''), (CHR ''b'', ''bB''),
      (CHR ''r'', ''bR''), (CHR ''q'', ''bQ''), (CHR ''k'', ''bK''),
      (CHR ''P'', ''wP''), (CHR ''N'', ''wN''), (CHR ''B'', ''wB''),
      (CHR ''R'', ''wR''), (CHR ''Q'', ''wQ''), (CHR ''K'', ''wK'')] c"

text \<open>Modelled from the spec: the number of empty squares a digit of the compact
  notation stands for, absent from the sources.\<close>

definition fenDigit :: "char \<Rightarrow> nat option" where
  "fenDigit c = map_of
     [(CHR ''1'', 1), (CHR ''2'', 2), (CHR ''3'', 3), (CHR ''4'', 4),
      (CHR ''5'', 5), (CHR ''6'', 6), (CHR ''7'', 7), (CHR ''8'', 8)] c"

text \<open>Modelled from the spec: one rank of the compact notation, expanded to its squares
  (\<open>None\<close> when a character is not recognised), absent from the sources.\<close>

fun expandFenRow :: "string \<Rightarrow> string option list option" where
  "expandFenRow [] = Some []"
| "expandFenRow (c # cs) =
     (case expandFenRow cs of
        None \<Rightarrow> None
      | Some rest \<Rightarrow>
          (case fenDigit c of
             Some n \<Rightarrow> Some (replicate n None @ rest)
           | None \<Rightarrow>
               (case fenPiece c of
                  Some pc \<Rightarrow> Some (Some pc # rest)
                | None \<Rightarrow> None)))"

text \<open>Modelled from the spec: the compact notation cut at its rank separators, absent
  from the sources.\<close>

fun splitRows :: "string \<Rightarrow> string list" where
  "splitRows [] = [[]]"
| "splitRows (c # cs) =
     (if c = CHR ''/'' then [] # splitRows cs
      else (case splitRows cs of
              [] \<Rightarrow> [[c]]
            | r # rs \<Rightarrow> (c # r) # rs))"

text \<open>The files of the board, \<^verbatim>\<open>COLUMNS\<close> of the constants module.\<close>

definition COLUMNS :: "string list" where
  "COLUMNS = map (\<lambda>c. [c]) ''abcdefgh''"

text \<open>Modelled from the spec: the squares of one rank with their pieces, absent from the
  sources.\<close>

definition rowEntries :: "char \<Rightarrow> string option list \<Rightarrow> position" where
  "rowEntries rank row =
     concat (map (\<lambda>(col, sq). case sq of None \<Rightarrow> [] | Some pc \<Rightarrow> [(col @ [rank], pc)])
                 (zip COLUMNS row))"

text \<open>Modelled from the spec: parsing the compact notation into a square-to-piece
  mapping, the empty position on malformed notation; absent from the sources.\<close>

definition fenToObj :: "string \<Rightarrow> position" where
  "fenToObj fen =
     (let rows = map expandFenRow (splitRows (takeWhile (\<lambda>c. c \<noteq> CHR '' '') fen))
      in if length rows = 8 \<and> list_all (\<lambda>r. case r of None \<Rightarrow> False | Some sqs \<Rightarrow> length sqs = 8) rows
         then concat (map (\<lambda>(rank, r). rowEntries rank (the r)) (zip ''87654321'' rows))
         else [])"

text \<open>Modelled from the spec: the canonical starting layout, absent from the sources.\<close>

definition START_POSITION_OBJECT :: position where
  "START_POSITION_OBJECT = fenToObj ''rnbqkbnr/pppppppp/8/8/8/8/PPPPPPPP/RNBQKBNR''"

text \<open>Modelled from the spec: \<^verbatim>\<open>normalize\<close> of the position model (the sentinel
  \<^verbatim>\<open>start\<close> or compact notation is parsed, a mapping passes through), absent from the
  sources.\<close>

definition spec_convertPositionToObject :: "position_prop \<Rightarrow> position" where
  "spec_convertPositionToObject pos =
     (case pos of
        PositionString str \<Rightarrow>
          (if str = ''start'' then START_POSITION_OBJECT else fenToObj str)
      | PositionObject obj \<Rightarrow> obj)"

text \<open>Modelled from the spec: \<^verbatim>\<open>diff\<close> of the position model (\<open>added\<close>: the squares of
  the new position whose occupant is new or changed; \<open>removed\<close>: the squares of the old
  position whose occupant is not matched in the new one), absent from the sources.\<close>

definition spec_getPositionDifferences :: "position \<Rightarrow> position \<Rightarrow> differences" where
  "spec_getPositionDifferences oldPos newPos =
     \<lparr>removed = filter (\<lambda>(sq, pc). map_of newPos sq \<noteq> Some pc) oldPos,
      added = filter (\<lambda>(sq, pc). map_of oldPos sq \<noteq> Some pc) newPos\<rparr>"

text \<open>Modelled from the spec: the check against the canonical starting layout, absent
  from the sources.\<close>

definition spec_isDifferentFromStart :: "position \<Rightarrow> bool" where
  "spec_isDifferentFromStart pos =
     (list_ex (\<lambda>(sq, pc). map_of pos sq \<noteq> Some pc) START_POSITION_OBJECT
      \<or> list_ex (\<lambda>(sq, pc). map_of START_POSITION_OBJECT sq \<noteq> Some pc) pos)"

definition spec_functions :: functions_js where
  "spec_functions =
     \<lparr>convertPositionToObject = spec_convertPositionToObject,
      getPositionDifferences = spec_getPositionDifferences,
      isDifferentFromStart = spec_isDifferentFromStart\<rparr>"

text \<open>The default props of the board (\<^verbatim>\<open>chessboardDefaultProps\<close>); the default
  \<^verbatim>\<open>onPieceDrop\<close> is \<^verbatim>\<open>() => true\<close>, of length \<open>0\<close>.\<close>

definition chessboardDefaultProps :: props where
  "chessboardDefaultProps =
     \<lparr>animationDuration = 300,
      arePremovesAllowed = False,
      dropOffBoardAction = ''snapback'',
      expectingAlternateMoves = True,
      onPieceDrop_length = 0,
      onPieceDrop = (\<lambda>src tgt pc. True)\<rparr>"

subsection \<open>Path conditions and squares\<close>

text \<open>
  The condition under which \<^verbatim>\<open>handleSetPosition\<close> passes its three early returns (dropped
  back down or same colour twice; queued as a premove; waiting for an animation) and
  plays the drop as a live move.
\<close>

definition isLiveDrop :: "props \<Rightarrow> string \<Rightarrow> string option \<Rightarrow> string \<Rightarrow> state \<Rightarrow> bool" where
  "isLiveDrop pr src tgt pc st =
     (\<not> (Some src = tgt \<or>
         (\<not> arePremovesAllowed pr \<and> expectingAlternateMoves pr
          \<and> lastPieceColour st = charAt0 pc))
      \<and> \<not> (arePremovesAllowed pr \<and>
             (lastPieceColour st = charAt0 pc \<or> length (premovesRef st) > 0))
      \<and> \<not> waitingForAnimation st)"

text \<open>Modelled from the spec: a square of the board is identified by file and rank
  (the ranks are absent from the sources).\<close>

definition isSquare :: "string \<Rightarrow> bool" where
  "isSquare sq = list_ex (\<lambda>col. list_ex (\<lambda>rank. sq = col @ [rank]) ''12345678'') COLUMNS"

text \<open>Props of a board that delegates every drop to a validation callback of three
  parameters, without and with premoves.\<close>

definition validatingProps :: "(string \<Rightarrow> string option \<Rightarrow> string \<Rightarrow> bool) \<Rightarrow> props" where
  "validatingProps cb = chessboardDefaultProps\<lparr>onPieceDrop_length := 3, onPieceDrop := cb\<rparr>"

definition premoveProps :: "(string \<Rightarrow> string option \<Rightarrow> string \<Rightarrow> bool) \<Rightarrow> props" where
  "premoveProps cb = (validatingProps cb)\<lparr>arePremovesAllowed := True\<rparr>"

definition acceptAll :: "string \<Rightarrow> string option \<Rightarrow> string \<Rightarrow> bool" where
  "acceptAll src tgt pc = True"

definition rejectAll :: "string \<Rightarrow> string option \<Rightarrow> string \<Rightarrow> bool" where
  "rejectAll src tgt pc = False"

text \<open>
  The invariant of the timers: while idle no timeout is pending; while waiting for an
  animation exactly one is, and \<^verbatim>\<open>previousTimeout\<close> holds its id. Ids are positive and
  below the next id.
\<close>

definition timerInvariant :: "state \<Rightarrow> bool" where
  "timerInvariant st =
     ((case timers st of
         [] \<Rightarrow> \<not> waitingForAnimation st
       | [t] \<Rightarrow> waitingForAnimation st \<and> previousTimeout st = Some (timeoutId t)
                \<and> 0 < timeoutId t
       | _ \<Rightarrow> False)
      \<and> list_all (\<lambda>t. timeoutId t < nextTimerId st) (timers st)
      \<and> 0 < nextTimerId st)"

text \<open>
  The timeout \<open>h\<close> was handed out and is not pending: it has fired or was cleared.
\<close>

definition neverPending :: "nat \<Rightarrow> state \<Rightarrow> bool" where
  "neverPending h st = (list_all (\<lambda>t. timeoutId t \<noteq> h) (timers st) \<and> h < nextTimerId st)"

subsection \<open>Example boards and games\<close>

text \<open>
  A small board, the same after the white pawn went to e4, after the black pawn
  answered on e5, and a position that differs from the second in three more squares.
\<close>

definition smallBoard :: position where
  "smallBoard = [(''e2'', ''wP''), (''g1'', ''wN''), (''f1'', ''wB''), (''e7'', ''bP'')]"

definition smallBoardE4 :: position where
  "smallBoardE4 = [(''g1'', ''wN''), (''f1'', ''wB''), (''e7'', ''bP''), (''e4'', ''wP'')]"

definition smallBoardE4E5 :: position where
  "smallBoardE4E5 = [(''g1'', ''wN''), (''f1'', ''wB''), (''e4'', ''wP''), (''e5'', ''bP'')]"

definition crowdedBoard :: position where
  "crowdedBoard =
     [(''g1'', ''wN''), (''f1'', ''wB''), (''e7'', ''bP''), (''e4'', ''wP''),
      (''a8'', ''bR''), (''b8'', ''bN''), (''c8'', ''bB'')]"

text \<open>
  A game with premoves: the mount animation ends, white plays e2 to e4 and the
  application confirms the position, white queues the knight move as a premove, black's
  answer arrives and is being animated.
\<close>

definition premoveGame :: "event list" where
  "premoveGame =
     [TimeoutFires 1,
      HandleDrop ''e2'' (Some ''e4'') ''wP'',
      PositionChange (PositionObject smallBoardE4),
      HandleDrop ''g1'' (Some ''f3'') ''wN'',
      PositionChange (PositionObject smallBoardE4E5)]"

definition animatingWithPremove :: state where
  "animatingWithPremove =
     run spec_functions (premoveProps acceptAll)
       (mount spec_functions (premoveProps acceptAll) (PositionObject smallBoard)) premoveGame"

text \<open>
  White has played e2 to e4, the position is confirmed, and two premoves are queued.
\<close>

definition twoPremoves :: state where
  "twoPremoves =
     run spec_functions (premoveProps acceptAll)
       (mount spec_functions (premoveProps acceptAll) (PositionObject smallBoard))
       [TimeoutFires 1,
        HandleDrop ''e2'' (Some ''e4'') ''wP'',
        PositionChange (PositionObject smallBoardE4),
        HandleDrop ''g1'' (Some ''f3'') ''wN'',
        HandleDrop ''f1'' (Some ''c4'') ''wB'']"

text \<open>
  Without premoves and without a callback: white has played e2 to e4 and the position
  is confirmed.
\<close>

definition afterWhiteMove :: state where
  "afterWhiteMove =
     run spec_functions chessboardDefaultProps
       (mount spec_functions chessboardDefaultProps (PositionObject smallBoard))
       [TimeoutFires 1,
        HandleDrop ''e2'' (Some ''e4'') ''wP'',
        PositionChange (PositionObject smallBoardE4)]"

subsection \<open>Evaluation\<close>

text \<open>The defining equations of the coordinator, for evaluating it on a concrete board.\<close>

lemmas coordinator_defs =
  run_def mount_def initialState_def positionChange_def positionEffect_def
  newPieceColour_def setTimeout_def clearTimeout_def truthyTimeout_def timeoutFires_def
  handleSetPosition_def attemptPremove_def clearPremoves_def
  charAt0_def falsy_def propertyKey_def isLiveDrop_def Let_def

lemmas board_defs = smallBoard_def smallBoardE4_def smallBoardE4E5_def

lemma START_POSITION_OBJECT_entries:
  "START_POSITION_OBJECT =
     [(''a8'', ''bR''), (''b8'', ''bN''), (''c8'', ''bB''), (''d8'', ''bQ''),
      (''e8'', ''bK''), (''f8'', ''bB''), (''g8'', ''bN''), (''h8'', ''bR''),
      (''a7'', ''bP''), (''b7'', ''bP''), (''c7'', ''bP''), (''d7'', ''bP''),
      (''e7'', ''bP''), (''f7'', ''bP''), (''g7'', ''bP''), (''h7'', ''bP''),
      (''a2'', ''wP''), (''b2'', ''wP''), (''c2'', ''wP''), (''d2'', ''wP''),
      (''e2'', ''wP''), (''f2'', ''wP''), (''g2'', ''wP''), (''h2'', ''wP''),
      (''a1'', ''wR''), (''b1'', ''wN''), (''c1'', ''wB''), (''d1'', ''wQ''),
      (''e1'', ''wK''), (''f1'', ''wB''), (''g1'', ''wN''), (''h1'', ''wR'')]"
  by code_simp

lemma board_differs_from_start: "spec_isDifferentFromStart smallBoardE4E5"
  by code_simp

lemmas spec_functions_defs =
  spec_functions_def spec_convertPositionToObject_def spec_getPositionDifferences_def
  chessboardDefaultProps_def validatingProps_def premoveProps_def acceptAll_def rejectAll_def
  board_differs_from_start [unfolded board_defs]

section \<open>Properties of the drop handler\<close>

lemma isSquare_length: "isSquare sq \<Longrightarrow> length sq = 2"
  by (auto simp add: isSquare_def COLUMNS_def)

lemma falsy_propertyKey_not_square: "falsy tgt \<Longrightarrow> \<not> isSquare (propertyKey tgt)"
  by (auto simp add: falsy_def propertyKey_def split: option.splits dest: isSquare_length)

lemma spare_not_square: "\<not> isSquare ''spare''"
  by (auto dest: isSquare_length)

text \<open>
  A drop is live exactly when it reaches the callbacks: every other drop leaves the
  callback log as it is.
\<close>

lemma isLiveDrop_iff_calls:
  "isLiveDrop pr src tgt pc st \<longleftrightarrow> calls (handleSetPosition pr src tgt pc st) \<noteq> calls st"
  by (auto simp add: isLiveDrop_def handleSetPosition_def clearPremoves_def Let_def)

text \<open>
  Claim C8. \<^verbatim>\<open>handleSetPosition\<close> returns at once, leaving every state cell, the premove
  reference and the callback log as they were, when the piece is dropped back on its
  source square, or when premoves are not allowed, alternate moves are expected and
  the piece has the colour of the last piece moved.
\<close>

theorem handleDrop_noop:
  "Some src = tgt \<or>
   (\<not> arePremovesAllowed pr \<and> expectingAlternateMoves pr \<and> lastPieceColour st = charAt0 pc)
   \<Longrightarrow> handleSetPosition pr src tgt pc st = st"
  by (simp add: handleSetPosition_def)

text \<open>
  On the start position with the default props: after the white pawn went from e2 to
  e4 the last colour is white, and a drop of the white knight changes nothing; so does
  dropping a pawn back on e2.
\<close>

theorem handleDrop_noop_witness:
  "(let pr = chessboardDefaultProps;
        st = run spec_functions pr (mount spec_functions pr (PositionString ''start''))
               [TimeoutFires 1, HandleDrop ''e2'' (Some ''e4'') ''wP'']
    in \<not> arePremovesAllowed pr \<and> expectingAlternateMoves pr
       \<and> lastPieceColour st = Some CHR ''w'' \<and> charAt0 ''wN'' = Some CHR ''w''
       \<and> handleSetPosition pr ''g1'' (Some ''f3'') ''wN'' st = st)
   \<and> handleSetPosition chessboardDefaultProps ''e2'' (Some ''e2'') ''wP''
        (initialState spec_functions (PositionString ''start''))
       = initialState spec_functions (PositionString ''start'')"
proof -
  let ?pr = chessboardDefaultProps
  let ?st = "run spec_functions ?pr (mount spec_functions ?pr (PositionString ''start''))
               [TimeoutFires 1, HandleDrop ''e2'' (Some ''e4'') ''wP'']"
  have h: "\<not> arePremovesAllowed ?pr \<and> expectingAlternateMoves ?pr
           \<and> lastPieceColour ?st = charAt0 ''wN''"
    by (simp add: coordinator_defs spec_functions_defs)
  have c: "lastPieceColour ?st = Some CHR ''w'' \<and> charAt0 ''wN'' = Some CHR ''w''"
    by (simp add: coordinator_defs spec_functions_defs)
  from handleDrop_noop [OF disjI2, OF h]
       handleDrop_noop [OF disjI1, of "''e2''" "Some ''e2''"] h c
  show ?thesis unfolding Let_def by blast
qed

text \<open>
  Claim C5. When a live drop is delegated to a validation callback (of length greater
  than zero) and the callback returns a falsy value, the premove queue is empty
  afterwards, in the state cell and in the reference, and the current position is the
  one before the drop.
\<close>

theorem rejected_drop_clears_queue:
  assumes "isLiveDrop pr src tgt pc st"
    and "onPieceDrop_length pr > 0"
    and "\<not> onPieceDrop pr src tgt pc"
  shows "premovesRef (handleSetPosition pr src tgt pc st) = []
       \<and> premoves (handleSetPosition pr src tgt pc st) = []
       \<and> length (premoves (handleSetPosition pr src tgt pc st)) = 0
       \<and> currentPosition (handleSetPosition pr src tgt pc st) = currentPosition st"
  using assms by (auto simp add: handleSetPosition_def isLiveDrop_def clearPremoves_def Let_def)

text \<open>
  A board with premoves: white plays e2 to e4 and queues the knight move as a premove.
  The application then switches premoves off, and a black drop that the callback
  rejects is live: it empties the queue of one premove and leaves the position.
\<close>

theorem rejected_drop_clears_queue_witness:
  "(let st = run spec_functions (premoveProps acceptAll)
               (mount spec_functions (premoveProps acceptAll) (PositionString ''start''))
               [TimeoutFires 1, HandleDrop ''e2'' (Some ''e4'') ''wP'',
                HandleDrop ''g1'' (Some ''f3'') ''wN''];
        pr = validatingProps rejectAll
    in premovesRef st = [\<lparr>sourceSq = ''g1'', targetSq = Some ''f3'', piece = ''wN''\<rparr>]
       \<and> isLiveDrop pr ''e7'' (Some ''e5'') ''bP'' st
       \<and> onPieceDrop_length pr > 0
       \<and> \<not> onPieceDrop pr ''e7'' (Some ''e5'') ''bP''
       \<and> premovesRef (handleSetPosition pr ''e7'' (Some ''e5'') ''bP'' st) = []
       \<and> premoves (handleSetPosition pr ''e7'' (Some ''e5'') ''bP'' st) = []
       \<and> currentPosition (handleSetPosition pr ''e7'' (Some ''e5'') ''bP'' st)
           = currentPosition st)"
proof -
  let ?st = "run spec_functions (premoveProps acceptAll)
               (mount spec_functions (premoveProps acceptAll) (PositionString ''start''))
               [TimeoutFires 1, HandleDrop ''e2'' (Some ''e4'') ''wP'',
                HandleDrop ''g1'' (Some ''f3'') ''wN'']"
  let ?pr = "validatingProps rejectAll"
  have q: "premovesRef ?st = [\<lparr>sourceSq = ''g1'', targetSq = Some ''f3'', piece = ''wN''\<rparr>]"
    by (simp add: coordinator_defs spec_functions_defs)
  have live: "isLiveDrop ?pr ''e7'' (Some ''e5'') ''bP'' ?st"
    by (simp add: coordinator_defs spec_functions_defs)
  have len: "onPieceDrop_length ?pr > 0"
    by (simp add: spec_functions_defs)
  have rej: "\<not> onPieceDrop ?pr ''e7'' (Some ''e5'') ''bP''"
    by (simp add: spec_functions_defs)
  from rejected_drop_clears_queue [OF live len rej] q live len rej
  show ?thesis unfolding Let_def by blast
qed

text \<open>
  Claim C10. After a live drop that the validation callback rejects, the last piece
  colour is undefined: \<^verbatim>\<open>clearPremoves\<close> resets what the drop had just set. The manual
  drop flag stays true. A further drop of a piece of the same colour (to another
  square) is therefore live again, whatever the props: the callback is called for it.
\<close>

theorem rejected_drop_mover_colour:
  assumes "isLiveDrop pr src tgt pc st"
    and "onPieceDrop_length pr > 0"
    and "\<not> onPieceDrop pr src tgt pc"
  shows "lastPieceColour (handleSetPosition pr src tgt pc st) = None
       \<and> manualDrop (handleSetPosition pr src tgt pc st)
       \<and> (\<forall>src2 tgt2 pc2.
            Some src2 \<noteq> tgt2 \<and> charAt0 pc2 = charAt0 pc \<and> charAt0 pc \<noteq> None
            \<longrightarrow> isLiveDrop pr src2 tgt2 pc2 (handleSetPosition pr src tgt pc st)
              \<and> calls (handleSetPosition pr src2 tgt2 pc2 (handleSetPosition pr src tgt pc st))
                = calls (handleSetPosition pr src tgt pc st)
                  @ [OnPieceDrop src2 tgt2 pc2, GetPositionObject (currentPosition st)])"
  using assms by (auto simp add: handleSetPosition_def isLiveDrop_def clearPremoves_def Let_def)

text \<open>
  With alternate moves expected and a callback that rejects every move: the rejected
  drop of the white pawn leaves no last colour, and the white knight may be dropped.
\<close>

theorem rejected_drop_mover_colour_witness:
  "(let pr = validatingProps rejectAll;
        st = run spec_functions pr (mount spec_functions pr (PositionString ''start''))
               [TimeoutFires 1];
        st' = handleSetPosition pr ''e2'' (Some ''e4'') ''wP'' st
    in expectingAlternateMoves pr
       \<and> isLiveDrop pr ''e2'' (Some ''e4'') ''wP'' st
       \<and> onPieceDrop_length pr > 0
       \<and> \<not> onPieceDrop pr ''e2'' (Some ''e4'') ''wP''
       \<and> lastPieceColour st' = None
       \<and> manualDrop st'
       \<and> isLiveDrop pr ''g1'' (Some ''f3'') ''wN'' st')"
proof -
  let ?pr = "validatingProps rejectAll"
  let ?st = "run spec_functions ?pr (mount spec_functions ?pr (PositionString ''start''))
               [TimeoutFires 1]"
  have live: "isLiveDrop ?pr ''e2'' (Some ''e4'') ''wP'' ?st"
    by (simp add: coordinator_defs spec_functions_defs)
  have len: "onPieceDrop_length ?pr > 0"
    by (simp add: spec_functions_defs)
  have rej: "\<not> onPieceDrop ?pr ''e2'' (Some ''e4'') ''wP''"
    by (simp add: spec_functions_defs)
  have ex: "expectingAlternateMoves ?pr"
    by (simp add: spec_functions_defs)
  have col: "Some ''g1'' \<noteq> Some ''f3'' \<and> charAt0 ''wN'' = charAt0 ''wP'' \<and> charAt0 ''wP'' \<noteq> None"
    by (simp add: charAt0_def)
  note colour = rejected_drop_mover_colour [OF live len rej]
  have none: "lastPieceColour (handleSetPosition ?pr ''e2'' (Some ''e4'') ''wP'' ?st) = None"
    by (rule conjunct1 [OF colour])
  have manual: "manualDrop (handleSetPosition ?pr ''e2'' (Some ''e4'') ''wP'' ?st)"
    by (rule conjunct1 [OF conjunct2 [OF colour]])
  have again: "isLiveDrop ?pr ''g1'' (Some ''f3'') ''wN''
                 (handleSetPosition ?pr ''e2'' (Some ''e4'') ''wP'' ?st)"
    using conjunct2 [OF conjunct2 [OF colour], rule_format, OF col] by (rule conjunct1)
  show ?thesis
    unfolding Let_def
    by (intro conjI ex live len rej none manual again)
qed




text \<open>
  What the direct path stores for a falsy target: the piece is kept under the key the
  falsy value is coerced to, which is no square of the board.
\<close>

lemma direct_drop_off_board_key:
  assumes "isLiveDrop pr src tgt pc st"
    and "onPieceDrop_length pr = 0"
    and "falsy tgt"
  shows "map_of (currentPosition (handleSetPosition pr src tgt pc st)) (propertyKey tgt) = Some pc
       \<and> \<not> isSquare (propertyKey tgt)"
  using assms falsy_propertyKey_not_square
  by (auto simp add: handleSetPosition_def isLiveDrop_def Let_def update_conv')

lemma premovesRef_attemptPremove:
  "premovesRef (attemptPremove pr c st) = premovesRef st
   \<or> premovesRef (attemptPremove pr c st) = tl (premovesRef st)
   \<or> premovesRef (attemptPremove pr c st) = []"
  by (auto simp add: attemptPremove_def clearPremoves_def Let_def split: list.splits)

lemma premovesRef_step:
  "premovesRef (step fn pr st e) = premovesRef st
   \<or> (\<exists>pm. premovesRef (step fn pr st e) = premovesRef st @ [pm])
   \<or> premovesRef (step fn pr st e) = tl (premovesRef st)
   \<or> premovesRef (step fn pr st e) = []"
proof (cases e)
  case (PositionChange pos)
  then show ?thesis
    by (simp add: positionChange_def positionEffect_def clearTimeout_def setTimeout_def Let_def
        split: option.splits)
next
  case (HandleDrop src tgt pc)
  then show ?thesis
    by (simp add: handleSetPosition_def clearPremoves_def Let_def)
next
  case (TimeoutFires h)
  show ?thesis
  proof (cases "find (\<lambda>t. timeoutId t = h) (timers st)")
    case None
    with TimeoutFires show ?thesis by (simp add: timeoutFires_def)
  next
    case (Some t)
    let ?st2 = "st\<lparr>timers := filter (\<lambda>t. timeoutId t \<noteq> h) (timers st),
                    currentPosition := commitPosition t, waitingForAnimation := False\<rparr>"
    from premovesRef_attemptPremove [of pr "commitColour t" ?st2] TimeoutFires Some
    show ?thesis by (auto simp add: timeoutFires_def Let_def)
  qed
next
  case ClearPremoves
  then show ?thesis by (simp add: clearPremoves_def)
qed

lemma calls_timeoutFires:
  "premovesRef st = pm # rest \<Longrightarrow>
   calls (timeoutFires pr h st) = calls st
   \<or> calls (timeoutFires pr h st) = calls st @ [OnPieceDrop (sourceSq pm) (targetSq pm) (piece pm)]"
  by (simp add: timeoutFires_def attemptPremove_def clearPremoves_def Let_def split: option.splits)

text \<open>
  Claim C4. A drop on another square, with premoves allowed and either the colour of
  the last piece moved or a non-empty queue, is appended to the premove queue (in the
  reference and in the state cell) and the current position stays. The queue is
  first in, first out: a step of the board leaves the queue, appends one premove at
  its tail, removes its head, or empties it; and when a commit fires, the only
  premove it may hand to \<^verbatim>\<open>onPieceDrop\<close> is the head.
\<close>

theorem premove_queueing:
  assumes "Some src \<noteq> tgt"
    and "arePremovesAllowed pr"
    and "lastPieceColour st = charAt0 pc \<or> premovesRef st \<noteq> []"
  shows "premovesRef (handleSetPosition pr src tgt pc st)
           = premovesRef st @ [\<lparr>sourceSq = src, targetSq = tgt, piece = pc\<rparr>]
       \<and> premoves (handleSetPosition pr src tgt pc st)
           = premovesRef st @ [\<lparr>sourceSq = src, targetSq = tgt, piece = pc\<rparr>]
       \<and> currentPosition (handleSetPosition pr src tgt pc st) = currentPosition st
       \<and> (\<forall>fn st2 e.
             premovesRef (step fn pr st2 e) = premovesRef st2
             \<or> (\<exists>pm. premovesRef (step fn pr st2 e) = premovesRef st2 @ [pm])
             \<or> premovesRef (step fn pr st2 e) = tl (premovesRef st2)
             \<or> premovesRef (step fn pr st2 e) = [])
       \<and> (\<forall>st2 h pm rest.
             premovesRef st2 = pm # rest \<longrightarrow>
             calls (timeoutFires pr h st2) = calls st2
             \<or> calls (timeoutFires pr h st2)
                = calls st2 @ [OnPieceDrop (sourceSq pm) (targetSq pm) (piece pm)])"
proof -
  have "premovesRef (handleSetPosition pr src tgt pc st)
           = premovesRef st @ [\<lparr>sourceSq = src, targetSq = tgt, piece = pc\<rparr>]
       \<and> premoves (handleSetPosition pr src tgt pc st)
           = premovesRef st @ [\<lparr>sourceSq = src, targetSq = tgt, piece = pc\<rparr>]
       \<and> currentPosition (handleSetPosition pr src tgt pc st) = currentPosition st"
    using assms by (auto simp add: handleSetPosition_def Let_def)
  then show ?thesis
    using premovesRef_step calls_timeoutFires by blast
qed

text \<open>
  With two premoves queued, the drop of the black pawn goes to the tail of the queue.
\<close>

theorem premove_queueing_witness:
  "Some ''e7'' \<noteq> Some ''e5''
   \<and> arePremovesAllowed (premoveProps acceptAll)
   \<and> premovesRef twoPremoves
       = [\<lparr>sourceSq = ''g1'', targetSq = Some ''f3'', piece = ''wN''\<rparr>,
          \<lparr>sourceSq = ''f1'', targetSq = Some ''c4'', piece = ''wB''\<rparr>]
   \<and> premovesRef (handleSetPosition (premoveProps acceptAll) ''e7'' (Some ''e5'') ''bP'' twoPremoves)
       = [\<lparr>sourceSq = ''g1'', targetSq = Some ''f3'', piece = ''wN''\<rparr>,
          \<lparr>sourceSq = ''f1'', targetSq = Some ''c4'', piece = ''wB''\<rparr>,
          \<lparr>sourceSq = ''e7'', targetSq = Some ''e5'', piece = ''bP''\<rparr>]
   \<and> currentPosition (handleSetPosition (premoveProps acceptAll) ''e7'' (Some ''e5'') ''bP'' twoPremoves)
       = currentPosition twoPremoves"
proof -
  have sq: "Some ''e7'' \<noteq> Some ''e5''"
    by simp
  have allowed: "arePremovesAllowed (premoveProps acceptAll)"
    by (simp add: spec_functions_defs)
  have q: "premovesRef twoPremoves
             = [\<lparr>sourceSq = ''g1'', targetSq = Some ''f3'', piece = ''wN''\<rparr>,
                \<lparr>sourceSq = ''f1'', targetSq = Some ''c4'', piece = ''wB''\<rparr>]"
    by (simp add: board_defs twoPremoves_def coordinator_defs spec_functions_defs)
  then have cond: "lastPieceColour twoPremoves = charAt0 ''bP'' \<or> premovesRef twoPremoves \<noteq> []"
    by simp
  note queued = premove_queueing [OF sq allowed cond]
  from conjunct1 [OF queued] q
  have tail: "premovesRef (handleSetPosition (premoveProps acceptAll) ''e7'' (Some ''e5'') ''bP''
                             twoPremoves)
       = [\<lparr>sourceSq = ''g1'', targetSq = Some ''f3'', piece = ''wN''\<rparr>,
          \<lparr>sourceSq = ''f1'', targetSq = Some ''c4'', piece = ''wB''\<rparr>,
          \<lparr>sourceSq = ''e7'', targetSq = Some ''e5'', piece = ''bP''\<rparr>]"
    by simp
  have same: "currentPosition (handleSetPosition (premoveProps acceptAll) ''e7'' (Some ''e5'') ''bP''
                                 twoPremoves) = currentPosition twoPremoves"
    by (rule conjunct1 [OF conjunct2 [OF conjunct2 [OF queued]]])
  show ?thesis
    by (intro conjI sq allowed q tail same)
qed

text \<open>
  Claim C7, as stated, fails: while black's answer is being animated and a premove is
  queued, the drop of the white bishop is not a no-op, it is queued.
\<close>

theorem drop_while_animating_counterexample:
  "waitingForAnimation animatingWithPremove
   \<and> handleSetPosition (premoveProps acceptAll) ''f1'' (Some ''c4'') ''wB'' animatingWithPremove
       \<noteq> animatingWithPremove"
proof -
  have w: "waitingForAnimation animatingWithPremove"
    by (simp add: board_defs premoveGame_def animatingWithPremove_def coordinator_defs spec_functions_defs)
  have q: "premovesRef animatingWithPremove
             = [\<lparr>sourceSq = ''g1'', targetSq = Some ''f3'', piece = ''wN''\<rparr>]"
    by (simp add: board_defs premoveGame_def animatingWithPremove_def coordinator_defs spec_functions_defs)
  have "premovesRef (handleSetPosition (premoveProps acceptAll) ''f1'' (Some ''c4'') ''wB''
                       animatingWithPremove)
          = [\<lparr>sourceSq = ''g1'', targetSq = Some ''f3'', piece = ''wN''\<rparr>,
             \<lparr>sourceSq = ''f1'', targetSq = Some ''c4'', piece = ''wB''\<rparr>]"
    by (simp add: handleSetPosition_def q premoveProps_def Let_def)
  with q have "handleSetPosition (premoveProps acceptAll) ''f1'' (Some ''c4'') ''wB''
                 animatingWithPremove \<noteq> animatingWithPremove"
    by auto
  with w show ?thesis by simp
qed

text \<open>
  Claim C7, amended. While waiting for an animation a drop never changes the current
  position. It changes nothing at all unless premoves are allowed and the piece has
  the colour of the last piece moved or the queue is non-empty; in that case a drop on
  another square is appended to the premove queue.
\<close>

theorem drop_while_animating:
  assumes "waitingForAnimation st"
  shows "currentPosition (handleSetPosition pr src tgt pc st) = currentPosition st
       \<and> (\<not> (arePremovesAllowed pr \<and> (lastPieceColour st = charAt0 pc \<or> premovesRef st \<noteq> []))
            \<longrightarrow> handleSetPosition pr src tgt pc st = st)
       \<and> (Some src \<noteq> tgt \<and> arePremovesAllowed pr
            \<and> (lastPieceColour st = charAt0 pc \<or> premovesRef st \<noteq> [])
            \<longrightarrow> premovesRef (handleSetPosition pr src tgt pc st)
                  = premovesRef st @ [\<lparr>sourceSq = src, targetSq = tgt, piece = pc\<rparr>])"
  using assms by (auto simp add: handleSetPosition_def Let_def)

text \<open>
  During the animation of black's answer the bishop drop leaves the position; during
  the mount animation, with no last colour and an empty queue, a drop changes nothing.
\<close>

theorem drop_while_animating_witness:
  "waitingForAnimation animatingWithPremove
   \<and> currentPosition
        (handleSetPosition (premoveProps acceptAll) ''f1'' (Some ''c4'') ''wB'' animatingWithPremove)
       = currentPosition animatingWithPremove
   \<and> waitingForAnimation
        (mount spec_functions (premoveProps acceptAll) (PositionObject smallBoard))
   \<and> handleSetPosition (premoveProps acceptAll) ''e2'' (Some ''e4'') ''wP''
        (mount spec_functions (premoveProps acceptAll) (PositionObject smallBoard))
       = mount spec_functions (premoveProps acceptAll) (PositionObject smallBoard)"
proof -
  let ?pr = "premoveProps acceptAll"
  let ?m = "mount spec_functions ?pr (PositionObject smallBoard)"
  have w: "waitingForAnimation animatingWithPremove"
    by (simp add: board_defs premoveGame_def animatingWithPremove_def coordinator_defs spec_functions_defs)
  have same: "currentPosition (handleSetPosition ?pr ''f1'' (Some ''c4'') ''wB'' animatingWithPremove)
                = currentPosition animatingWithPremove"
    by (rule conjunct1 [OF drop_while_animating [OF w]])
  have w': "waitingForAnimation ?m"
    by (simp add: board_defs premoveGame_def animatingWithPremove_def coordinator_defs spec_functions_defs)
  have notq: "\<not> (arePremovesAllowed ?pr
                  \<and> (lastPieceColour ?m = charAt0 ''wP'' \<or> premovesRef ?m \<noteq> []))"
    by (simp add: board_defs premoveGame_def animatingWithPremove_def coordinator_defs spec_functions_defs)
  have noop: "handleSetPosition ?pr ''e2'' (Some ''e4'') ''wP'' ?m = ?m"
    using conjunct1 [OF conjunct2 [OF drop_while_animating [OF w']]] notq by (rule mp)
  show ?thesis
    by (intro conjI w same w' noop)
qed

section \<open>Properties of the premove replay\<close>

text \<open>
  Claim C3. \<^verbatim>\<open>attemptPremove\<close> changes nothing when the queue is empty. Otherwise it
  looks at the head without removing it; \<^verbatim>\<open>onPieceDrop\<close> is called only if the colour of
  the head's piece differs from the colour given and the callback has parameters
  (the code also requires the piece to have a colour), and then it is called with the
  head. When the callback accepts, the last colour is the colour of the premove's piece,
  the manual drop flag is true and the queue is its tail; when it rejects, the queue
  is empty.
\<close>

theorem attemptPremove_contract:
  "(premovesRef st = [] \<longrightarrow> attemptPremove pr c st = st)
   \<and> (premovesRef st = pm # rest \<longrightarrow>
        (calls (attemptPremove pr c st) \<noteq> calls st
           \<longrightarrow> charAt0 (piece pm) \<noteq> c \<and> onPieceDrop_length pr \<noteq> 0)
      \<and> (\<not> (charAt0 (piece pm) \<noteq> None \<and> charAt0 (piece pm) \<noteq> c \<and> onPieceDrop_length pr \<noteq> 0)
           \<longrightarrow> attemptPremove pr c st = st)
      \<and> (charAt0 (piece pm) \<noteq> None \<and> charAt0 (piece pm) \<noteq> c \<and> onPieceDrop_length pr \<noteq> 0
           \<longrightarrow> calls (attemptPremove pr c st)
                 = calls st @ [OnPieceDrop (sourceSq pm) (targetSq pm) (piece pm)]
             \<and> (onPieceDrop pr (sourceSq pm) (targetSq pm) (piece pm)
                  \<longrightarrow> lastPieceColour (attemptPremove pr c st) = charAt0 (piece pm)
                    \<and> manualDrop (attemptPremove pr c st)
                    \<and> premovesRef (attemptPremove pr c st) = rest
                    \<and> premoves (attemptPremove pr c st) = rest)
             \<and> (\<not> onPieceDrop pr (sourceSq pm) (targetSq pm) (piece pm)
                  \<longrightarrow> premovesRef (attemptPremove pr c st) = []
                    \<and> premoves (attemptPremove pr c st) = [])))"
  by (simp add: attemptPremove_def clearPremoves_def Let_def)

text \<open>
  With the knight and the bishop move queued by white: replayed after a black move,
  the knight move is accepted and the bishop move remains; rejected, both are gone;
  after a white move nothing is attempted; and an empty queue is left alone.
\<close>

theorem attemptPremove_contract_witness:
  "premovesRef twoPremoves
     = [\<lparr>sourceSq = ''g1'', targetSq = Some ''f3'', piece = ''wN''\<rparr>,
        \<lparr>sourceSq = ''f1'', targetSq = Some ''c4'', piece = ''wB''\<rparr>]
   \<and> premovesRef (attemptPremove (premoveProps acceptAll) (Some CHR ''b'') twoPremoves)
       = [\<lparr>sourceSq = ''f1'', targetSq = Some ''c4'', piece = ''wB''\<rparr>]
   \<and> lastPieceColour (attemptPremove (premoveProps acceptAll) (Some CHR ''b'') twoPremoves)
       = Some CHR ''w''
   \<and> manualDrop (attemptPremove (premoveProps acceptAll) (Some CHR ''b'') twoPremoves)
   \<and> premovesRef (attemptPremove (premoveProps rejectAll) (Some CHR ''b'') twoPremoves) = []
   \<and> attemptPremove (premoveProps acceptAll) (Some CHR ''w'') twoPremoves = twoPremoves
   \<and> premovesRef (initialState spec_functions (PositionObject smallBoard)) = []
   \<and> attemptPremove (premoveProps acceptAll) (Some CHR ''b'')
        (initialState spec_functions (PositionObject smallBoard))
       = initialState spec_functions (PositionObject smallBoard)"
proof -
  let ?pm = "\<lparr>sourceSq = ''g1'', targetSq = Some ''f3'', piece = ''wN''\<rparr>"
  let ?rest = "[\<lparr>sourceSq = ''f1'', targetSq = Some ''c4'', piece = ''wB''\<rparr>]"
  let ?init = "initialState spec_functions (PositionObject smallBoard)"
  have q: "premovesRef twoPremoves = ?pm # ?rest"
    by (simp add: board_defs twoPremoves_def coordinator_defs spec_functions_defs)
  have accepted:
    "premovesRef (attemptPremove (premoveProps acceptAll) (Some CHR ''b'') twoPremoves) = ?rest
     \<and> lastPieceColour (attemptPremove (premoveProps acceptAll) (Some CHR ''b'') twoPremoves)
         = Some CHR ''w''
     \<and> manualDrop (attemptPremove (premoveProps acceptAll) (Some CHR ''b'') twoPremoves)"
    using attemptPremove_contract
            [where st = twoPremoves and pm = ?pm and rest = ?rest
               and pr = "premoveProps acceptAll" and c = "Some CHR ''b''"] q
    by (simp add: charAt0_def spec_functions_defs)
  have rejected:
    "premovesRef (attemptPremove (premoveProps rejectAll) (Some CHR ''b'') twoPremoves) = []"
    using attemptPremove_contract
            [where st = twoPremoves and pm = ?pm and rest = ?rest
               and pr = "premoveProps rejectAll" and c = "Some CHR ''b''"] q
    by (simp add: charAt0_def spec_functions_defs)
  have skipped:
    "attemptPremove (premoveProps acceptAll) (Some CHR ''w'') twoPremoves = twoPremoves"
    using attemptPremove_contract
            [where st = twoPremoves and pm = ?pm and rest = ?rest
               and pr = "premoveProps acceptAll" and c = "Some CHR ''w''"] q
    by (simp add: charAt0_def spec_functions_defs)
  have e: "premovesRef ?init = []"
    by (simp add: initialState_def)
  have empty: "attemptPremove (premoveProps acceptAll) (Some CHR ''b'') ?init = ?init"
    using attemptPremove_contract
            [where st = ?init and pr = "premoveProps acceptAll" and c = "Some CHR ''b''"] e
    by simp
  from q accepted rejected skipped e empty show ?thesis by simp
qed

section \<open>Properties of the position effect\<close>

lemma clearTimeout_fields [simp]:
  "currentPosition (clearTimeout h st) = currentPosition st"
  "lastPieceColour (clearTimeout h st) = lastPieceColour st"
  "premoves (clearTimeout h st) = premoves st"
  "premovesRef (clearTimeout h st) = premovesRef st"
  "manualDrop (clearTimeout h st) = manualDrop st"
  "previousTimeout (clearTimeout h st) = previousTimeout st"
  "waitingForAnimation (clearTimeout h st) = waitingForAnimation st"
  "nextTimerId (clearTimeout h st) = nextTimerId st"
  "calls (clearTimeout h st) = calls st"
  by (simp_all add: clearTimeout_def split: option.splits)

lemma lastPieceColour_positionEffect:
  "lastPieceColour (positionEffect fn pr pos st) =
     (if \<not> waitingForAnimation st \<and> \<not> manualDrop st
         \<and> isDifferentFromStart fn (convertPositionToObject fn pos)
         \<and> lastPieceColour st \<noteq> None
      then newPieceColour (getPositionDifferences fn (currentPosition st)
                             (convertPositionToObject fn pos))
      else lastPieceColour st)"
  by (auto simp add: positionEffect_def setTimeout_def Let_def)

lemma commitColour_positionEffect:
  "\<not> waitingForAnimation st \<Longrightarrow> \<not> manualDrop st \<Longrightarrow>
   commitColour (last (timers (positionEffect fn pr pos st)))
     = newPieceColour (getPositionDifferences fn (currentPosition st)
                         (convertPositionToObject fn pos))"
  by (simp add: positionEffect_def setTimeout_def Let_def)

text \<open>
  Claim C2, as stated, fails: a position with more than two added entries arrives
  after white moved; the last colour was white and is undefined afterwards.
\<close>

theorem mover_colour_unchanged_counterexample:
  "2 < length (added (getPositionDifferences spec_functions (currentPosition afterWhiteMove)
                        (convertPositionToObject spec_functions (PositionObject crowdedBoard))))
   \<and> lastPieceColour afterWhiteMove = Some CHR ''w''
   \<and> lastPieceColour
        (positionChange spec_functions chessboardDefaultProps (PositionObject crowdedBoard)
           afterWhiteMove)
       \<noteq> lastPieceColour afterWhiteMove"
proof -
  have crowded: "spec_isDifferentFromStart crowdedBoard"
    by code_simp
  show ?thesis
    by (simp add: board_defs afterWhiteMove_def crowdedBoard_def coordinator_defs
        spec_functions_defs crowded [unfolded crowdedBoard_def])
qed

text \<open>
  Claim C2, amended. The colour inferred from the differences is the colour of the
  first added entry when there are at most two added entries (undefined when there is
  none), and undefined when there are more than two. The last piece colour is replaced
  by the inferred colour when the change arrives while the board is idle, the last
  move was no manual drop, the new position differs from the start position and a last
  colour was set; in every other case it is left as it is. When the change is animated,
  the inferred colour is also what the scheduled commit hands to \<^verbatim>\<open>attemptPremove\<close>.
\<close>

theorem mover_colour_on_position_change:
  "(let newPosition = convertPositionToObject fn pos;
        diffs = getPositionDifferences fn (currentPosition st) newPosition;
        updated = (\<not> waitingForAnimation st \<and> \<not> manualDrop st
                   \<and> isDifferentFromStart fn newPosition \<and> lastPieceColour st \<noteq> None);
        st' = positionChange fn pr pos st
    in (updated \<longrightarrow> lastPieceColour st' = newPieceColour diffs)
     \<and> (\<not> updated \<longrightarrow> lastPieceColour st' = lastPieceColour st)
     \<and> (length (added diffs) \<le> 2 \<longrightarrow>
          newPieceColour diffs = (case added diffs of [] \<Rightarrow> None | (sq, pc) # _ \<Rightarrow> charAt0 pc))
     \<and> (length (added diffs) > 2 \<longrightarrow> newPieceColour diffs = None)
     \<and> (\<not> waitingForAnimation st \<and> \<not> manualDrop st \<longrightarrow>
          commitColour (last (timers st')) = newPieceColour diffs))"
  unfolding Let_def positionChange_def lastPieceColour_positionEffect
  by (auto simp add: newPieceColour_def commitColour_positionEffect)

text \<open>
  After white's move, black's answer on e5 makes black the last colour; the position
  with three more pieces makes the last colour undefined.
\<close>

theorem mover_colour_on_position_change_witness:
  "\<not> waitingForAnimation afterWhiteMove \<and> \<not> manualDrop afterWhiteMove
   \<and> isDifferentFromStart spec_functions (convertPositionToObject spec_functions (PositionObject smallBoardE4E5))
   \<and> lastPieceColour afterWhiteMove = Some CHR ''w''
   \<and> added (getPositionDifferences spec_functions (currentPosition afterWhiteMove)
               (convertPositionToObject spec_functions (PositionObject smallBoardE4E5)))
       = [(''e5'', ''bP'')]
   \<and> lastPieceColour
        (positionChange spec_functions chessboardDefaultProps (PositionObject smallBoardE4E5)
           afterWhiteMove) = Some CHR ''b''
   \<and> lastPieceColour
        (positionChange spec_functions chessboardDefaultProps (PositionObject crowdedBoard)
           afterWhiteMove) = None"
proof -
  let ?fn = spec_functions
  let ?pr = chessboardDefaultProps
  let ?new = "convertPositionToObject ?fn (PositionObject smallBoardE4E5)"
  let ?diffs = "getPositionDifferences ?fn (currentPosition afterWhiteMove) ?new"
  let ?new' = "convertPositionToObject ?fn (PositionObject crowdedBoard)"
  let ?diffs' = "getPositionDifferences ?fn (currentPosition afterWhiteMove) ?new'"
  have idle: "\<not> waitingForAnimation afterWhiteMove" "\<not> manualDrop afterWhiteMove"
    by (simp_all add: board_defs afterWhiteMove_def coordinator_defs spec_functions_defs)
  have col: "lastPieceColour afterWhiteMove = Some CHR ''w''"
    by (simp add: board_defs afterWhiteMove_def coordinator_defs spec_functions_defs)
  have cur: "currentPosition afterWhiteMove = smallBoardE4"
    by (simp add: board_defs afterWhiteMove_def coordinator_defs spec_functions_defs)
  have differs: "isDifferentFromStart ?fn ?new"
    by (simp add: board_defs spec_functions_defs)
  have crowded: "spec_isDifferentFromStart crowdedBoard"
    by code_simp
  have differs': "isDifferentFromStart ?fn ?new'"
    by (simp add: spec_functions_defs crowded)
  have one: "added ?diffs = [(''e5'', ''bP'')]"
    unfolding cur by (simp add: board_defs spec_functions_defs)
  have three: "2 < length (added ?diffs')"
    unfolding cur by (simp add: board_defs crowdedBoard_def spec_functions_defs)
  note change = mover_colour_on_position_change
                  [where fn = ?fn and pr = ?pr and st = afterWhiteMove, unfolded Let_def]
  have upd: "lastPieceColour (positionChange ?fn ?pr (PositionObject smallBoardE4E5) afterWhiteMove)
               = newPieceColour ?diffs"
    using conjunct1 [OF change [where pos = "PositionObject smallBoardE4E5"]] idle col differs
    by simp
  have inf: "newPieceColour ?diffs = Some CHR ''b''"
    using conjunct1 [OF conjunct2 [OF conjunct2 [OF change [where pos = "PositionObject smallBoardE4E5"]]]]
      one by (simp add: charAt0_def)
  have upd': "lastPieceColour (positionChange ?fn ?pr (PositionObject crowdedBoard) afterWhiteMove)
               = newPieceColour ?diffs'"
    using conjunct1 [OF change [where pos = "PositionObject crowdedBoard"]] idle col differs'
    by simp
  have inf': "newPieceColour ?diffs' = None"
    using conjunct1 [OF conjunct2 [OF conjunct2 [OF conjunct2
            [OF change [where pos = "PositionObject crowdedBoard"]]]]]
      three by simp
  from idle differs col one upd inf upd' inf' show ?thesis by simp
qed
lemma timers_attemptPremove [simp]:
  "timers (attemptPremove pr c st) = timers st"
  "nextTimerId (attemptPremove pr c st) = nextTimerId st"
  "waitingForAnimation (attemptPremove pr c st) = waitingForAnimation st"
  "previousTimeout (attemptPremove pr c st) = previousTimeout st"
  "currentPosition (attemptPremove pr c st) = currentPosition st"
  by (simp_all add: attemptPremove_def clearPremoves_def Let_def split: list.splits)

lemma timers_handleSetPosition [simp]:
  "timers (handleSetPosition pr src tgt pc st) = timers st"
  "nextTimerId (handleSetPosition pr src tgt pc st) = nextTimerId st"
  "waitingForAnimation (handleSetPosition pr src tgt pc st) = waitingForAnimation st"
  "previousTimeout (handleSetPosition pr src tgt pc st) = previousTimeout st"
  by (simp_all add: handleSetPosition_def clearPremoves_def Let_def)

lemma timers_clearPremoves [simp]:
  "timers (clearPremoves st) = timers st"
  "nextTimerId (clearPremoves st) = nextTimerId st"
  "waitingForAnimation (clearPremoves st) = waitingForAnimation st"
  "previousTimeout (clearPremoves st) = previousTimeout st"
  by (simp_all add: clearPremoves_def)

lemma timerInvariant_cong:
  "timers st' = timers st \<Longrightarrow> nextTimerId st' = nextTimerId st \<Longrightarrow>
   waitingForAnimation st' = waitingForAnimation st \<Longrightarrow>
   previousTimeout st' = previousTimeout st \<Longrightarrow>
   timerInvariant st' = timerInvariant st"
  by (simp add: timerInvariant_def split: list.splits)

lemma timerInvariant_cases:
  assumes "timerInvariant st"
  obtains (idle) "timers st = []" "\<not> waitingForAnimation st" "0 < nextTimerId st"
  | (animating) t where "timers st = [t]" "waitingForAnimation st"
      "previousTimeout st = Some (timeoutId t)" "0 < timeoutId t"
      "timeoutId t < nextTimerId st"
  using assms
  by (auto simp add: timerInvariant_def split: list.splits)

lemma timerInvariant_initialState: "timerInvariant (initialState fn pos)"
  by (simp add: timerInvariant_def initialState_def)

lemma timerInvariant_positionEffect:
  assumes "timerInvariant st"
  shows "timerInvariant (positionEffect fn pr pos st)"
  using assms
proof (cases rule: timerInvariant_cases)
  case idle
  then show ?thesis
    by (simp add: timerInvariant_def positionEffect_def setTimeout_def Let_def)
next
  case (animating t)
  then show ?thesis
    by (simp add: timerInvariant_def positionEffect_def clearTimeout_def truthyTimeout_def Let_def)
qed

lemma timerInvariant_clearTimeout_stale:
  assumes "timerInvariant st"
  shows "timerInvariant (positionEffect fn pr pos (clearTimeout h st))"
  using assms
proof (cases rule: timerInvariant_cases)
  case idle
  then have "clearTimeout h st = st"
    by (cases st) (simp add: clearTimeout_def split: option.splits)
  with assms show ?thesis
    by (simp add: timerInvariant_positionEffect)
next
  case (animating t)
  then show ?thesis
    by (simp add: timerInvariant_def positionEffect_def clearTimeout_def truthyTimeout_def Let_def
        split: option.splits)
qed

lemma timerInvariant_mount: "timerInvariant (mount fn pr pos)"
  by (simp add: mount_def timerInvariant_positionEffect timerInvariant_initialState)

lemma timerInvariant_timeoutFires:
  assumes "timerInvariant st"
  shows "timerInvariant (timeoutFires pr h st)"
  using assms
proof (cases rule: timerInvariant_cases)
  case idle
  then show ?thesis using assms by (simp add: timeoutFires_def)
next
  case (animating t)
  show ?thesis
  proof (cases "timeoutId t = h")
    case True
    with animating show ?thesis
      by (simp add: timeoutFires_def Let_def timerInvariant_def
          timerInvariant_cong [of "attemptPremove pr c st'" st' for c st'])
  next
    case False
    with animating assms show ?thesis by (simp add: timeoutFires_def)
  qed
qed

lemma timerInvariant_step:
  "timerInvariant st \<Longrightarrow> timerInvariant (step fn pr st e)"
  by (cases e)
     (simp_all add: positionChange_def timerInvariant_clearTimeout_stale
        timerInvariant_timeoutFires
        timerInvariant_cong [of "handleSetPosition pr src tgt pc st" st for src tgt pc]
        timerInvariant_cong [of "clearPremoves st" st])

lemma timerInvariant_run:
  "timerInvariant st \<Longrightarrow> timerInvariant (run fn pr st es)"
  unfolding run_def
  by (induction es arbitrary: st) (simp_all add: timerInvariant_step)

lemma neverPending_positionEffect:
  assumes "neverPending h st"
  shows "neverPending h (positionEffect fn pr pos st)"
  using assms
  by (auto simp add: neverPending_def positionEffect_def setTimeout_def clearTimeout_def
      Let_def list_all_iff split: option.splits)

lemma neverPending_clearTimeout:
  "neverPending h st \<Longrightarrow> neverPending h (clearTimeout h' st)"
  by (auto simp add: neverPending_def clearTimeout_def list_all_iff split: option.splits)

lemma neverPending_timeoutFires_noop:
  assumes "neverPending h st"
  shows "timeoutFires pr h st = st"
proof -
  from assms have "find (\<lambda>t. timeoutId t = h) (timers st) = None"
    by (auto simp add: neverPending_def find_None_iff list_all_iff)
  then show ?thesis by (simp add: timeoutFires_def)
qed

lemma neverPending_timeoutFires:
  assumes "neverPending h st"
  shows "neverPending h (timeoutFires pr h' st)"
proof (cases "find (\<lambda>t. timeoutId t = h') (timers st)")
  case None
  with assms show ?thesis by (simp add: timeoutFires_def)
next
  case (Some t)
  with assms show ?thesis
    by (auto simp add: timeoutFires_def neverPending_def Let_def list_all_iff)
qed

lemma neverPending_step:
  "neverPending h st \<Longrightarrow> neverPending h (step fn pr st e)"
  by (cases e)
     (simp_all add: positionChange_def neverPending_positionEffect neverPending_clearTimeout
        neverPending_timeoutFires, simp_all add: neverPending_def)

lemma neverPending_run:
  "neverPending h st \<Longrightarrow> neverPending h (run fn pr st es)"
  unfolding run_def
  by (induction es arbitrary: st) (simp_all add: neverPending_step)

lemma timers_length_reachable:
  "length (timers (run fn pr (mount fn pr initial) es)) \<le> 1"
proof -
  have "timerInvariant (run fn pr (mount fn pr initial) es)"
    by (simp add: timerInvariant_run timerInvariant_mount)
  then show ?thesis
    by (cases rule: timerInvariant_cases) simp_all
qed

lemma positionChange_while_animating:
  assumes inv: "timerInvariant st" and w: "waitingForAnimation st"
  obtains t where "timers st = [t]"
    "timers (positionChange fn pr pos st) = []"
    "currentPosition (positionChange fn pr pos st) = convertPositionToObject fn pos"
    "\<not> waitingForAnimation (positionChange fn pr pos st)"
    "neverPending (timeoutId t) (positionChange fn pr pos st)"
  using inv
proof (cases rule: timerInvariant_cases)
  case idle
  with w show ?thesis by simp
next
  case (animating t)
  then have "timers (positionChange fn pr pos st) = []"
    "currentPosition (positionChange fn pr pos st) = convertPositionToObject fn pos"
    "\<not> waitingForAnimation (positionChange fn pr pos st)"
    "neverPending (timeoutId t) (positionChange fn pr pos st)"
    by (simp_all add: positionChange_def positionEffect_def clearTimeout_def truthyTimeout_def
        neverPending_def Let_def split: option.splits)
  with animating that show ?thesis by blast
qed

text \<open>
  Claim C1. In a state reached from the mount by any events, a position change that
  arrives while waiting for an animation finds exactly one pending timeout and clears
  it, the new position is the current position at once, and the board no longer
  waits. The cleared timeout is never pending again, so that its commit cannot run in
  any later state. At most one timeout is pending in any reachable state.
\<close>

theorem update_while_animating:
  assumes "st = run fn pr (mount fn pr initial) es"
    and "waitingForAnimation st"
  shows "(\<exists>t. timers st = [t]
            \<and> timers (positionChange fn pr pos st) = []
            \<and> currentPosition (positionChange fn pr pos st) = convertPositionToObject fn pos
            \<and> \<not> waitingForAnimation (positionChange fn pr pos st)
            \<and> (\<forall>es'. list_all (\<lambda>t'. timeoutId t' \<noteq> timeoutId t)
                         (timers (run fn pr (positionChange fn pr pos st) es'))
                     \<and> timeoutFires pr (timeoutId t) (run fn pr (positionChange fn pr pos st) es')
                         = run fn pr (positionChange fn pr pos st) es'))
       \<and> (\<forall>es'. length (timers (run fn pr (mount fn pr initial) es')) \<le> 1)"
proof -
  from assms(1) have inv: "timerInvariant st"
    by (simp add: timerInvariant_run timerInvariant_mount)
  from inv assms(2) obtain t where t: "timers st = [t]"
    "timers (positionChange fn pr pos st) = []"
    "currentPosition (positionChange fn pr pos st) = convertPositionToObject fn pos"
    "\<not> waitingForAnimation (positionChange fn pr pos st)"
    "neverPending (timeoutId t) (positionChange fn pr pos st)"
    by (rule positionChange_while_animating)
  have later: "list_all (\<lambda>t'. timeoutId t' \<noteq> timeoutId t)
                 (timers (run fn pr (positionChange fn pr pos st) es'))
             \<and> timeoutFires pr (timeoutId t) (run fn pr (positionChange fn pr pos st) es')
                 = run fn pr (positionChange fn pr pos st) es'" for es'
  proof -
    from t(5) have "neverPending (timeoutId t) (run fn pr (positionChange fn pr pos st) es')"
      by (rule neverPending_run)
    then show ?thesis
      by (simp add: neverPending_timeoutFires_noop) (simp add: neverPending_def)
  qed
  from t later have "\<exists>t. timers st = [t]
            \<and> timers (positionChange fn pr pos st) = []
            \<and> currentPosition (positionChange fn pr pos st) = convertPositionToObject fn pos
            \<and> \<not> waitingForAnimation (positionChange fn pr pos st)
            \<and> (\<forall>es'. list_all (\<lambda>t'. timeoutId t' \<noteq> timeoutId t)
                         (timers (run fn pr (positionChange fn pr pos st) es'))
                     \<and> timeoutFires pr (timeoutId t) (run fn pr (positionChange fn pr pos st) es')
                         = run fn pr (positionChange fn pr pos st) es')"
    by blast
  then show ?thesis
    using timers_length_reachable by blast
qed

text \<open>
  The mount animation has ended and a first change is being animated (timeout 2) when
  a second change arrives: timeout 2 is cleared, the second position is current, the
  board no longer waits, and timeout 2 does nothing in a later state.
\<close>

theorem update_while_animating_witness:
  "waitingForAnimation
     (run spec_functions chessboardDefaultProps
        (mount spec_functions chessboardDefaultProps (PositionObject smallBoard))
        [TimeoutFires 1, PositionChange (PositionObject smallBoardE4)])
   \<and> map timeoutId
        (timers (run spec_functions chessboardDefaultProps
           (mount spec_functions chessboardDefaultProps (PositionObject smallBoard))
           [TimeoutFires 1, PositionChange (PositionObject smallBoardE4)])) = [2]
   \<and> timers
        (positionChange spec_functions chessboardDefaultProps (PositionObject smallBoardE4E5)
           (run spec_functions chessboardDefaultProps
              (mount spec_functions chessboardDefaultProps (PositionObject smallBoard))
              [TimeoutFires 1, PositionChange (PositionObject smallBoardE4)])) = []
   \<and> currentPosition
        (positionChange spec_functions chessboardDefaultProps (PositionObject smallBoardE4E5)
           (run spec_functions chessboardDefaultProps
              (mount spec_functions chessboardDefaultProps (PositionObject smallBoard))
              [TimeoutFires 1, PositionChange (PositionObject smallBoardE4)])) = smallBoardE4E5
   \<and> \<not> waitingForAnimation
        (positionChange spec_functions chessboardDefaultProps (PositionObject smallBoardE4E5)
           (run spec_functions chessboardDefaultProps
              (mount spec_functions chessboardDefaultProps (PositionObject smallBoard))
              [TimeoutFires 1, PositionChange (PositionObject smallBoardE4)]))
   \<and> timeoutFires chessboardDefaultProps 2
        (run spec_functions chessboardDefaultProps
           (positionChange spec_functions chessboardDefaultProps (PositionObject smallBoardE4E5)
              (run spec_functions chessboardDefaultProps
                 (mount spec_functions chessboardDefaultProps (PositionObject smallBoard))
                 [TimeoutFires 1, PositionChange (PositionObject smallBoardE4)]))
           [HandleDrop ''g1'' (Some ''f3'') ''wN''])
       = run spec_functions chessboardDefaultProps
           (positionChange spec_functions chessboardDefaultProps (PositionObject smallBoardE4E5)
              (run spec_functions chessboardDefaultProps
                 (mount spec_functions chessboardDefaultProps (PositionObject smallBoard))
                 [TimeoutFires 1, PositionChange (PositionObject smallBoardE4)]))
           [HandleDrop ''g1'' (Some ''f3'') ''wN'']"
proof -
  let ?fn = spec_functions
  let ?pr = chessboardDefaultProps
  let ?st = "run ?fn ?pr (mount ?fn ?pr (PositionObject smallBoard))
               [TimeoutFires 1, PositionChange (PositionObject smallBoardE4)]"
  let ?st' = "positionChange ?fn ?pr (PositionObject smallBoardE4E5) ?st"
  have w: "waitingForAnimation ?st"
    by (simp add: board_defs coordinator_defs spec_functions_defs)
  have ids: "map timeoutId (timers ?st) = [2]"
    by (simp add: board_defs coordinator_defs spec_functions_defs)
  have conv: "convertPositionToObject ?fn (PositionObject smallBoardE4E5) = smallBoardE4E5"
    by (simp add: spec_functions_defs)
  from update_while_animating [OF refl w, of "PositionObject smallBoardE4E5"]
  obtain t where t: "timers ?st = [t]" "timers ?st' = []"
    "currentPosition ?st' = convertPositionToObject ?fn (PositionObject smallBoardE4E5)"
    "\<not> waitingForAnimation ?st'"
    "\<forall>es'. list_all (\<lambda>t'. timeoutId t' \<noteq> timeoutId t) (timers (run ?fn ?pr ?st' es'))
           \<and> timeoutFires ?pr (timeoutId t) (run ?fn ?pr ?st' es') = run ?fn ?pr ?st' es'"
    by blast
  from t(1) ids have id: "timeoutId t = 2" by simp
  from t(5) have stale: "timeoutFires ?pr 2 (run ?fn ?pr ?st' [HandleDrop ''g1'' (Some ''f3'') ''wN''])
                     = run ?fn ?pr ?st' [HandleDrop ''g1'' (Some ''f3'') ''wN'']"
    unfolding id by blast
  from t(3) conv have cur: "currentPosition ?st' = smallBoardE4E5" by simp
  show ?thesis
    by (intro conjI w ids t(2) cur t(4) stale)
qed

lemma premoves_sync_attemptPremove:
  "premovesRef (attemptPremove pr c st) = premoves (attemptPremove pr c st)
   \<or> (premovesRef (attemptPremove pr c st) = premovesRef st
      \<and> premoves (attemptPremove pr c st) = premoves st)"
  by (simp add: attemptPremove_def clearPremoves_def Let_def split: list.splits)

lemma premoves_positionEffect [simp]:
  "premovesRef (positionEffect fn pr pos st) = premovesRef st"
  "premoves (positionEffect fn pr pos st) = premoves st"
  by (simp_all add: positionEffect_def setTimeout_def clearTimeout_def Let_def
      split: option.splits)

lemma premoves_sync_step:
  "premovesRef (step fn pr st e) = premoves (step fn pr st e)
   \<or> (premovesRef (step fn pr st e) = premovesRef st
      \<and> premoves (step fn pr st e) = premoves st)"
proof (cases e)
  case (PositionChange pos)
  then show ?thesis by (simp add: positionChange_def)
next
  case (HandleDrop src tgt pc)
  then show ?thesis by (simp add: handleSetPosition_def clearPremoves_def Let_def)
next
  case (TimeoutFires h)
  show ?thesis
  proof (cases "find (\<lambda>t. timeoutId t = h) (timers st)")
    case None
    with TimeoutFires show ?thesis by (simp add: timeoutFires_def)
  next
    case (Some t)
    let ?st2 = "st\<lparr>timers := filter (\<lambda>t. timeoutId t \<noteq> h) (timers st),
                    currentPosition := commitPosition t, waitingForAnimation := False\<rparr>"
    from premoves_sync_attemptPremove [of pr "commitColour t" ?st2] TimeoutFires Some
    show ?thesis by (auto simp add: timeoutFires_def Let_def)
  qed
next
  case ClearPremoves
  then show ?thesis by (simp add: clearPremoves_def)
qed

lemma premoves_sync_run:
  "premovesRef st = premoves st \<Longrightarrow> premovesRef (run fn pr st es) = premoves (run fn pr st es)"
  unfolding run_def
proof (induction es arbitrary: st)
  case Nil
  then show ?case by simp
next
  case (Cons e es)
  from premoves_sync_step [of fn pr st e] Cons.prems
  have "premovesRef (step fn pr st e) = premoves (step fn pr st e)" by auto
  then show ?case by (simp add: Cons.IH)
qed

lemma premoves_sync_mount: "premovesRef (mount fn pr pos) = premoves (mount fn pr pos)"
  by (simp add: mount_def initialState_def)

lemma timeoutFires_reads_reference:
  assumes "find (\<lambda>t'. timeoutId t' = h) (timers st) = Some t"
    and "arePremovesAllowed pr"
    and "premovesRef st = pm # rest"
    and "charAt0 (piece pm) \<noteq> None \<and> charAt0 (piece pm) \<noteq> commitColour t
         \<and> onPieceDrop_length pr \<noteq> 0"
  shows "calls (timeoutFires pr h st)
           = calls st @ [OnPieceDrop (sourceSq pm) (targetSq pm) (piece pm)]
       \<and> premovesRef (timeoutFires pr h st)
           = (if onPieceDrop pr (sourceSq pm) (targetSq pm) (piece pm) then rest else [])"
  using assms
  by (simp add: timeoutFires_def attemptPremove_def clearPremoves_def Let_def)

text \<open>
  Claim C9. The reference and the state cell of the premove queue agree in every
  reachable state; a step that changes either of them leaves them equal. A commit
  that fires works on the reference as it is when it fires: the premove it hands to
  the callback is the head of the queue of the state it fires in, and the queue
  afterwards is the tail of that queue, or empty on rejection.
\<close>

theorem premoves_reference_current:
  "premovesRef (run fn pr (mount fn pr initial) es) = premoves (run fn pr (mount fn pr initial) es)
   \<and> (\<forall>st e. premovesRef (step fn pr st e) \<noteq> premovesRef st
               \<or> premoves (step fn pr st e) \<noteq> premoves st
             \<longrightarrow> premovesRef (step fn pr st e) = premoves (step fn pr st e))
   \<and> (\<forall>st h t pm rest.
         find (\<lambda>t'. timeoutId t' = h) (timers st) = Some t
         \<and> arePremovesAllowed pr
         \<and> premovesRef st = pm # rest
         \<and> charAt0 (piece pm) \<noteq> None \<and> charAt0 (piece pm) \<noteq> commitColour t
         \<and> onPieceDrop_length pr \<noteq> 0
         \<longrightarrow> calls (timeoutFires pr h st)
               = calls st @ [OnPieceDrop (sourceSq pm) (targetSq pm) (piece pm)]
           \<and> premovesRef (timeoutFires pr h st)
               = (if onPieceDrop pr (sourceSq pm) (targetSq pm) (piece pm) then rest else []))"
proof (intro conjI allI impI)
  show "premovesRef (run fn pr (mount fn pr initial) es) = premoves (run fn pr (mount fn pr initial) es)"
    by (simp add: premoves_sync_run premoves_sync_mount)
next
  fix st :: state and e
  assume "premovesRef (step fn pr st e) \<noteq> premovesRef st
          \<or> premoves (step fn pr st e) \<noteq> premoves st"
  with premoves_sync_step [of fn pr st e]
  show "premovesRef (step fn pr st e) = premoves (step fn pr st e)" by auto
next
  fix st :: state and h and t :: timeout and pm :: premove and rest
  assume a: "find (\<lambda>t'. timeoutId t' = h) (timers st) = Some t
         \<and> arePremovesAllowed pr
         \<and> premovesRef st = pm # rest
         \<and> charAt0 (piece pm) \<noteq> None \<and> charAt0 (piece pm) \<noteq> commitColour t
         \<and> onPieceDrop_length pr \<noteq> 0"
  then show "calls (timeoutFires pr h st)
               = calls st @ [OnPieceDrop (sourceSq pm) (targetSq pm) (piece pm)]"
    using timeoutFires_reads_reference [of h st t pr pm rest] by simp
  from a show "premovesRef (timeoutFires pr h st)
               = (if onPieceDrop pr (sourceSq pm) (targetSq pm) (piece pm) then rest else [])"
    using timeoutFires_reads_reference [of h st t pr pm rest] by simp
qed

text \<open>
  Timeout 2 was set when the queue held the knight move. The bishop move is queued
  during the animation; when the timeout fires, the knight move is replayed from the
  queue of two and the bishop move remains.
\<close>

theorem premoves_reference_current_witness:
  "premovesRef animatingWithPremove
     = [\<lparr>sourceSq = ''g1'', targetSq = Some ''f3'', piece = ''wN''\<rparr>]
   \<and> premovesRef (handleSetPosition (premoveProps acceptAll) ''f1'' (Some ''c4'') ''wB''
                    animatingWithPremove)
       = [\<lparr>sourceSq = ''g1'', targetSq = Some ''f3'', piece = ''wN''\<rparr>,
          \<lparr>sourceSq = ''f1'', targetSq = Some ''c4'', piece = ''wB''\<rparr>]
   \<and> premovesRef (timeoutFires (premoveProps acceptAll) 2
                    (handleSetPosition (premoveProps acceptAll) ''f1'' (Some ''c4'') ''wB''
                       animatingWithPremove))
       = [\<lparr>sourceSq = ''f1'', targetSq = Some ''c4'', piece = ''wB''\<rparr>]
   \<and> premovesRef (run spec_functions (premoveProps acceptAll)
                    (mount spec_functions (premoveProps acceptAll) (PositionObject smallBoard))
                    (premoveGame @ [HandleDrop ''f1'' (Some ''c4'') ''wB'', TimeoutFires 2]))
       = premoves (run spec_functions (premoveProps acceptAll)
                    (mount spec_functions (premoveProps acceptAll) (PositionObject smallBoard))
                    (premoveGame @ [HandleDrop ''f1'' (Some ''c4'') ''wB'', TimeoutFires 2]))"
proof -
  let ?pr = "premoveProps acceptAll"
  let ?pm = "\<lparr>sourceSq = ''g1'', targetSq = Some ''f3'', piece = ''wN''\<rparr>"
  let ?pm' = "\<lparr>sourceSq = ''f1'', targetSq = Some ''c4'', piece = ''wB''\<rparr>"
  let ?st = "handleSetPosition ?pr ''f1'' (Some ''c4'') ''wB'' animatingWithPremove"
  let ?t = "\<lparr>timeoutId = 2, delay = 300, commitPosition = smallBoardE4E5,
             commitColour = Some CHR ''b''\<rparr>"
  note current = premoves_reference_current
                   [where fn = spec_functions and pr = ?pr and initial = "PositionObject smallBoard"
                      and es = "premoveGame @ [HandleDrop ''f1'' (Some ''c4'') ''wB'', TimeoutFires 2]"]
  have q0: "premovesRef animatingWithPremove = [?pm]"
    by (simp add: board_defs premoveGame_def animatingWithPremove_def coordinator_defs spec_functions_defs)
  have tm: "timers animatingWithPremove = [?t]"
    by (simp add: board_defs premoveGame_def animatingWithPremove_def coordinator_defs spec_functions_defs)
  have q: "premovesRef ?st = ?pm # [?pm']"
    by (simp add: handleSetPosition_def q0 premoveProps_def Let_def)
  have pending: "find (\<lambda>t'. timeoutId t' = 2) (timers ?st) = Some ?t"
    by (simp add: handleSetPosition_def q0 tm premoveProps_def Let_def)
  have cond: "arePremovesAllowed ?pr \<and> charAt0 (piece ?pm) \<noteq> None
              \<and> charAt0 (piece ?pm) \<noteq> commitColour ?t \<and> onPieceDrop_length ?pr \<noteq> 0
              \<and> onPieceDrop ?pr (sourceSq ?pm) (targetSq ?pm) (piece ?pm)"
    by (simp add: charAt0_def spec_functions_defs)
  have fired: "premovesRef (timeoutFires ?pr 2 ?st) = [?pm']"
    using conjunct2 [OF conjunct2 [OF current], rule_format, of 2 ?st ?t ?pm "[?pm']"]
      pending q cond by simp
  show ?thesis
    by (intro conjI q0 q [simplified] fired conjunct1 [OF current])
qed

end
